theory Spec2Isabelle
  imports Complex_Main
begin

section \<open>The Prometheus query module (plugins/modules/query.py)\<close>

text \<open>
  The module has three functions: \<open>fetch_latest_metric_value\<close>, \<open>sanitize_query\<close> and
  \<open>main\<close>. They are embedded below in that order. Everything the module calls but does
  not define (the clock, the HTTP client, the builtins \<open>float\<close>, \<open>bool\<close> of a float and
  \<open>str\<close> of an exception) is a field of the record \<open>host\<close>, so every theorem holds for
  every behaviour of these.
\<close>

subsection \<open>Python values\<close>

text \<open>
  What \<open>response.json()\<close> returns: \<open>None\<close>, a bool, an int, a float, a str, a list or
  a dict with str keys. The type \<open>'f\<close> stands for Python's floats (NaN and the
  infinities included, which Prometheus sends as samples); no arithmetic is done on them.
  A dict is an association list read with \<open>map_of\<close>.
\<close>

datatype 'f pyval =
    PNone
  | PBool bool
  | PInt int
  | PFloat 'f
  | PStr string
  | PList "'f pyval list"
  | PDict "(string \<times> 'f pyval) list"

text \<open>A subscript as the module writes them: an int literal (\<open>[0]\<close>, \<open>[1]\<close>) or a str
  literal (\<open>['value']\<close>).\<close>

datatype subscript = Index nat | Name string

text \<open>
  The exceptions that can arise between \<open>try\<close> and \<open>except\<close> of \<open>main\<close>; all of them are
  subclasses of \<open>Exception\<close>. \<open>RequestException\<close> stands for the whole family raised by
  the HTTP client (connection errors, timeouts, \<open>HTTPError\<close> of \<open>raise_for_status\<close>).
  The string is a description of the arguments; the text of \<open>str(e)\<close> is the host's.
\<close>

datatype exn =
    RequestException string
  | ValueError string
  | OverflowError string
  | TypeError string
  | AttributeError string
  | KeyError subscript
  | IndexError string

subsection \<open>The host: clock, HTTP client, builtins\<close>

text \<open>The \<open>params\<close> dict of a request, \<open>{'query': query, 'time': end_time}\<close>, by its
  two keys.\<close>

record params =
  param_query :: string
  param_time :: int

text \<open>A response object, as the two methods the module calls on it: what
  \<open>raise_for_status()\<close> raises (\<open>None\<close> when it returns) and what \<open>json()\<close> returns or
  raises.\<close>

record 'f response =
  raise_for_status :: "exn option"
  json :: "exn + 'f pyval"

text \<open>
  \<open>'w\<close> is the state of the world outside the module (the server, the network). A call
  of \<open>requests.get\<close> reads and changes it, so the same request can be answered
  differently the second time.
\<close>

record ('w, 'f) host =
  time_time :: "'w \<Rightarrow> real"
  requests_get :: "string \<Rightarrow> params \<Rightarrow> 'w \<Rightarrow> (exn + 'f response) \<times> 'w"
  float_of :: "'f pyval \<Rightarrow> exn + 'f"
  float_nonzero :: "'f \<Rightarrow> bool"
  str_of :: "exn \<Rightarrow> string"

text \<open>The state threaded through a run: the world and the requests sent so far, oldest
  first, each as its URL and its \<open>params\<close>.\<close>

type_synonym request = "string \<times> params"
type_synonym 'w io = "'w \<times> request list"

definition get :: "('w, 'f) host \<Rightarrow> string \<Rightarrow> params \<Rightarrow> 'w io \<Rightarrow> (exn + 'f response) \<times> 'w io" where
  "get h url ps s =
     (case s of (w, sent) \<Rightarrow>
        (case requests_get h url ps w of (r, w') \<Rightarrow> (r, (w', sent @ [(url, ps)]))))"

text \<open>\<open>int(x)\<close> of a finite float: truncation towards zero.\<close>

definition int_of :: "real \<Rightarrow> int" where
  "int_of x = (if 0 \<le> x then floor x else ceiling x)"

subsection \<open>The operations of Python the module uses\<close>

text \<open>Truth value of an object, as \<open>if metric_data:\<close> tests it.\<close>

fun truth :: "('w, 'f) host \<Rightarrow> 'f pyval \<Rightarrow> bool" where
  "truth h PNone = False"
| "truth h (PBool b) = b"
| "truth h (PInt i) = (i \<noteq> 0)"
| "truth h (PFloat x) = float_nonzero h x"
| "truth h (PStr s) = (s \<noteq> [])"
| "truth h (PList xs) = (xs \<noteq> [])"
| "truth h (PDict kvs) = (kvs \<noteq> [])"

text \<open>\<open>x.get(k, d)\<close>: only a dict has the method.\<close>

fun dict_get :: "'f pyval \<Rightarrow> string \<Rightarrow> 'f pyval \<Rightarrow> exn + 'f pyval" where
  "dict_get (PDict kvs) k d = Inr (case map_of kvs k of Some v \<Rightarrow> v | None \<Rightarrow> d)"
| "dict_get x k d = Inl (AttributeError ''get'')"

text \<open>
  \<open>x[i]\<close>. A list or a str is indexed by an int and raises \<open>IndexError\<close> out of range
  (the module only uses the indices 0 and 1); a dict decoded from JSON has str keys
  only, so an int subscript is a missing key; nothing else is subscriptable.
\<close>

fun getitem :: "'f pyval \<Rightarrow> subscript \<Rightarrow> exn + 'f pyval" where
  "getitem (PList xs) (Index i) =
     (if i < length xs then Inr (xs ! i) else Inl (IndexError ''list index out of range''))"
| "getitem (PList xs) (Name k) = Inl (TypeError ''list indices must be integers or slices'')"
| "getitem (PStr s) (Index i) =
     (if i < length s then Inr (PStr [s ! i]) else Inl (IndexError ''string index out of range''))"
| "getitem (PStr s) (Name k) = Inl (TypeError ''string indices must be integers'')"
| "getitem (PDict kvs) (Name k) =
     (case map_of kvs k of Some v \<Rightarrow> Inr v | None \<Rightarrow> Inl (KeyError (Name k)))"
| "getitem (PDict kvs) (Index i) = Inl (KeyError (Index i))"
| "getitem x i = Inl (TypeError ''object is not subscriptable'')"

subsection \<open>fetch_latest_metric_value\<close>

definition PROMETHEUS_QUERY_API :: string where
  "PROMETHEUS_QUERY_API = ''/api/v1/query''"

text \<open>
  Lines 52 to 55 of the source, on the decoded body:
  \<^verbatim>\<open>
  metric_data = data.get('data', {}).get('result', [])
  if metric_data:
      return float(metric_data[0]['value'][1])
  return None
  \<close>
\<close>

definition latest_sample :: "('w, 'f) host \<Rightarrow> 'f pyval \<Rightarrow> exn + 'f option" where
  "latest_sample h data =
     (case dict_get data ''data'' (PDict []) of
        Inl e \<Rightarrow> Inl e
      | Inr d \<Rightarrow>
     (case dict_get d ''result'' (PList []) of
        Inl e \<Rightarrow> Inl e
      | Inr metric_data \<Rightarrow>
          if truth h metric_data then
            (case getitem metric_data (Index 0) of
               Inl e \<Rightarrow> Inl e
             | Inr entry \<Rightarrow>
            (case getitem entry (Name ''value'') of
               Inl e \<Rightarrow> Inl e
             | Inr pair \<Rightarrow>
            (case getitem pair (Index 1) of
               Inl e \<Rightarrow> Inl e
             | Inr sample \<Rightarrow>
            (case float_of h sample of
               Inl e \<Rightarrow> Inl e
             | Inr x \<Rightarrow> Inr (Some x)))))
          else Inr None))"

text \<open>
  The whole function. \<open>Inl e\<close> is the exception \<open>e\<close> leaving the function. The handler
  \<open>except requests.RequestException as e: raise e\<close> raises what it caught, so every
  exception, of that class or not, leaves unchanged.
\<close>

definition fetch_latest_metric_value ::
  "('w, 'f) host \<Rightarrow> string \<Rightarrow> int \<Rightarrow> string \<Rightarrow> 'w io \<Rightarrow> (exn + 'f option) \<times> 'w io" where
  "fetch_latest_metric_value h query end_time prometheus_url s =
     (case get h (prometheus_url @ PROMETHEUS_QUERY_API) \<lparr>param_query = query, param_time = end_time\<rparr> s of
        (Inl e, s') \<Rightarrow> (Inl e, s')
      | (Inr response, s') \<Rightarrow>
          (case raise_for_status response of
             Some e \<Rightarrow> (Inl e, s')
           | None \<Rightarrow>
               (case json response of
                  Inl e \<Rightarrow> (Inl e, s')
                | Inr data \<Rightarrow> (latest_sample h data, s'))))"

subsection \<open>sanitize_query\<close>

text \<open>\<open>s.replace(old, new)\<close> for one-character \<open>old\<close> and \<open>new\<close>.\<close>

definition replace :: "char \<Rightarrow> char \<Rightarrow> string \<Rightarrow> string" where
  "replace old new s = map (\<lambda>c. if c = old then new else c) s"

definition sanitize_query :: "string \<Rightarrow> string" where
  "sanitize_query query = replace CHR ''.'' CHR ''_'' (replace CHR '':'' CHR ''_'' query)"

subsection \<open>main\<close>

text \<open>A value of \<open>metrics_data\<close>: the float, or the message.\<close>

datatype 'f metric = Number 'f | Text string

text \<open>\<open>metrics_data\<close> is a dict, which keeps its keys in the order of their first
  insertion: an association list, and \<open>d[k] = v\<close> overwrites in place or appends.\<close>

type_synonym 'f metrics = "(string \<times> 'f metric) list"

fun setitem :: "'f metrics \<Rightarrow> string \<Rightarrow> 'f metric \<Rightarrow> 'f metrics" where
  "setitem [] k v = [(k, v)]"
| "setitem ((k', v') # d) k v = (if k' = k then (k, v) # d else (k', v') # setitem d k v)"

definition NO_DATA :: string where
  "NO_DATA = ''No data available for the specified time range.''"

text \<open>
  The body of the \<open>for\<close> loop, lines 78 to 83. \<open>Inl msg\<close> is the call
  \<open>module.fail_json(msg=msg)\<close>, which ends the process (it raises \<open>SystemExit\<close>, which
  is no \<open>Exception\<close>); \<open>Inr d\<close> is the dict after the iteration.
\<close>

definition process_query ::
  "('w, 'f) host \<Rightarrow> string \<Rightarrow> int \<Rightarrow> string \<Rightarrow> 'f metrics \<Rightarrow> 'w io \<Rightarrow> (string + 'f metrics) \<times> 'w io" where
  "process_query h prometheus_url end_time query metrics_data s =
     (case fetch_latest_metric_value h query end_time prometheus_url s of
        (Inl e, s') \<Rightarrow> (Inl (str_of h e), s')
      | (Inr latest_value, s') \<Rightarrow>
          (let key = (if latest_value \<noteq> None then sanitize_query query else query);
               v = (case latest_value of Some x \<Rightarrow> Number x | None \<Rightarrow> Text NO_DATA)
           in (Inr (setitem metrics_data key v), s')))"

fun query_loop ::
  "('w, 'f) host \<Rightarrow> string \<Rightarrow> int \<Rightarrow> string list \<Rightarrow> 'f metrics \<Rightarrow> 'w io \<Rightarrow> (string + 'f metrics) \<times> 'w io" where
  "query_loop h prometheus_url end_time [] metrics_data s = (Inr metrics_data, s)"
| "query_loop h prometheus_url end_time (query # rest) metrics_data s =
     (case process_query h prometheus_url end_time query metrics_data s of
        (Inl msg, s') \<Rightarrow> (Inl msg, s')
      | (Inr metrics_data', s') \<Rightarrow> query_loop h prometheus_url end_time rest metrics_data' s')"

text \<open>\<open>module.params\<close> after the host runtime has checked them, by its two keys. The
  queries are strings, as the module's documentation declares them (\<open>elements: str\<close>).\<close>

record module_params =
  params_prometheus_url :: string
  params_queries :: "string list"

text \<open>How the process ends: \<open>fail_json(msg=...)\<close> or
  \<open>exit_json(changed=..., metrics_data=...)\<close>.\<close>

datatype 'f outcome = Fail_json string | Exit_json bool "'f metrics"

definition main :: "('w, 'f) host \<Rightarrow> module_params \<Rightarrow> 'w \<Rightarrow> 'f outcome \<times> 'w io" where
  "main h module_params w =
     (let prometheus_url = params_prometheus_url module_params;
          queries = params_queries module_params;
          current_time = int_of (time_time h w);
          end_time = current_time
      in (case query_loop h prometheus_url end_time queries [] (w, []) of
            (Inl msg, s) \<Rightarrow> (Fail_json msg, s)
          | (Inr metrics_data, s) \<Rightarrow> (Exit_json False metrics_data, s)))"

section \<open>An example host\<close>

text \<open>
  A host to run the module on: a server that answers by the query string alone, and a
  \<open>float\<close> that reads the two sample strings the examples use. The world is the number
  of requests answered so far; floats are read as real numbers.
\<close>

definition demo_result :: "string \<Rightarrow> real pyval list" where
  "demo_result q =
     (if q = ''up'' \<or> q = ''http:requests.total'' then
        [PDict [(''metric'', PDict [(''__name__'', PStr ''up'')]),
                (''value'', PList [PFloat 1700000000.5, PStr ''1''])]]
      else if q = ''job:errors.rate'' then
        [PDict [(''metric'', PDict []), (''value'', PList [PFloat 1700000000.5, PStr ''0''])]]
      else if q = ''novalue'' then [PDict [(''metric'', PDict [])]]
      else if q = ''short'' then [PDict [(''metric'', PDict []), (''value'', PList [PFloat 1700000000.5])]]
      else if q = ''text'' then
        [PDict [(''metric'', PDict []), (''value'', PList [PFloat 1700000000.5, PStr ''n/a''])]]
      else [])"

definition demo_body :: "string \<Rightarrow> real pyval" where
  "demo_body q =
     (if q = ''unknown'' then PDict [(''status'', PStr ''success'')]
      else PDict [(''status'', PStr ''success''),
                  (''data'', PDict [(''resultType'', PStr ''vector''), (''result'', PList (demo_result q))])])"

definition demo_response :: "string \<Rightarrow> exn + real response" where
  "demo_response q =
     (if q = ''down'' then Inl (RequestException ''connection refused'')
      else Inr \<lparr>raise_for_status =
                  (if q = ''gone'' then Some (RequestException ''404 Client Error'') else None),
               json = (if q = ''garbled'' then Inl (ValueError ''Expecting value'') else Inr (demo_body q))\<rparr>)"

fun demo_float :: "real pyval \<Rightarrow> exn + real" where
  "demo_float (PStr s) =
     (if s = ''1'' then Inr 1 else if s = ''0'' then Inr 0
      else Inl (ValueError ''could not convert string to float''))"
| "demo_float (PFloat x) = Inr x"
| "demo_float (PInt i) = Inr (of_int i)"
| "demo_float (PBool b) = Inr (if b then 1 else 0)"
| "demo_float v = Inl (TypeError ''float() argument must be a string or a real number'')"

fun demo_str :: "exn \<Rightarrow> string" where
  "demo_str (RequestException m) = m"
| "demo_str (ValueError m) = m"
| "demo_str (OverflowError m) = m"
| "demo_str (TypeError m) = m"
| "demo_str (AttributeError m) = m"
| "demo_str (KeyError (Name k)) = CHR 0x27 # k @ [CHR 0x27]"
| "demo_str (KeyError (Index i)) = (if i = 0 then ''0'' else ''1'')"
| "demo_str (IndexError m) = m"

definition demo_host :: "(nat, real) host" where
  "demo_host =
     \<lparr>time_time = (\<lambda>w. 1700000000.75),
      requests_get = (\<lambda>url ps w. (demo_response (param_query ps), Suc w)),
      float_of = demo_float,
      float_nonzero = (\<lambda>x. x \<noteq> 0),
      str_of = demo_str\<rparr>"

definition demo_params :: "string list \<Rightarrow> module_params" where
  "demo_params qs = \<lparr>params_prometheus_url = ''http://prometheus-server:9090'', params_queries = qs\<rparr>"

section \<open>Properties\<close>

subsection \<open>Evaluation and basic facts\<close>

lemmas demo_defs = demo_host_def demo_params_def demo_response_def demo_body_def demo_result_def
  main_def process_query_def fetch_latest_metric_value_def latest_sample_def get_def
  sanitize_query_def replace_def NO_DATA_def PROMETHEUS_QUERY_API_def int_of_def Let_def

lemma demo_get:
  "requests_get demo_host u \<lparr>param_query = q, param_time = t\<rparr> w = (demo_response q, Suc w)"
  by (simp add: demo_host_def)

lemma replace_length: "length (replace old new s) = length s"
  by (simp add: replace_def)

lemma replace_nth: "i < length s \<Longrightarrow> replace old new s ! i = (if s ! i = old then new else s ! i)"
  by (simp add: replace_def)

lemma map_of_setitem: "map_of (setitem d k v) k = Some v"
  by (induction d k v rule: setitem.induct) simp_all

lemma setitem_fresh: "k \<notin> fst ` set d \<Longrightarrow> setitem d k v = d @ [(k, v)]"
  by (induction d k v rule: setitem.induct) auto

lemma get_eq:
  "requests_get h url ps w = (r, w') \<Longrightarrow> get h url ps (w, sent) = (r, (w', sent @ [(url, ps)]))"
  by (simp add: get_def)

lemma fetch_raises_get:
  "requests_get h (url @ PROMETHEUS_QUERY_API) \<lparr>param_query = q, param_time = t\<rparr> w = (Inl e, w') \<Longrightarrow>
   fetch_latest_metric_value h q t url (w, sent) =
     (Inl e, (w', sent @ [(url @ PROMETHEUS_QUERY_API, \<lparr>param_query = q, param_time = t\<rparr>)]))"
  by (simp add: fetch_latest_metric_value_def get_eq)

lemma fetch_raises_status:
  "requests_get h (url @ PROMETHEUS_QUERY_API) \<lparr>param_query = q, param_time = t\<rparr> w = (Inr r, w') \<Longrightarrow>
   raise_for_status r = Some e \<Longrightarrow>
   fetch_latest_metric_value h q t url (w, sent) =
     (Inl e, (w', sent @ [(url @ PROMETHEUS_QUERY_API, \<lparr>param_query = q, param_time = t\<rparr>)]))"
  by (simp add: fetch_latest_metric_value_def get_eq)

lemma fetch_body:
  "requests_get h (url @ PROMETHEUS_QUERY_API) \<lparr>param_query = q, param_time = t\<rparr> w = (Inr r, w') \<Longrightarrow>
   raise_for_status r = None \<Longrightarrow> json r = Inr data \<Longrightarrow>
   fetch_latest_metric_value h q t url (w, sent) =
     (latest_sample h data, (w', sent @ [(url @ PROMETHEUS_QUERY_API, \<lparr>param_query = q, param_time = t\<rparr>)]))"
  by (simp add: fetch_latest_metric_value_def get_eq)

lemma latest_sample_empty:
  "map_of body ''data'' = Some (PDict d) \<Longrightarrow>
   map_of d ''result'' = Some (PList []) \<Longrightarrow>
   latest_sample h (PDict body) = Inr None"
  by (simp add: latest_sample_def)

lemma latest_sample_no_value:
  "map_of body ''data'' = Some (PDict d) \<Longrightarrow>
   map_of d ''result'' = Some (PList (PDict entry # entries)) \<Longrightarrow>
   map_of entry ''value'' = None \<Longrightarrow>
   latest_sample h (PDict body) = Inl (KeyError (Name ''value''))"
  by (simp add: latest_sample_def)

lemma latest_sample_short_value:
  "map_of body ''data'' = Some (PDict d) \<Longrightarrow>
   map_of d ''result'' = Some (PList (PDict entry # entries)) \<Longrightarrow>
   map_of entry ''value'' = Some (PList vs) \<Longrightarrow> length vs < 2 \<Longrightarrow>
   latest_sample h (PDict body) = Inl (IndexError ''list index out of range'')"
  by (simp add: latest_sample_def)

lemma latest_sample_nonempty:
  "map_of body ''data'' = Some (PDict d) \<Longrightarrow>
   map_of d ''result'' = Some (PList (entry # entries)) \<Longrightarrow>
   latest_sample h (PDict body) =
     (case getitem entry (Name ''value'') of
        Inl e \<Rightarrow> Inl e
      | Inr pair \<Rightarrow>
     (case getitem pair (Index 1) of
        Inl e \<Rightarrow> Inl e
      | Inr sample \<Rightarrow>
     (case float_of h sample of
        Inl e \<Rightarrow> Inl e
      | Inr x \<Rightarrow> Inr (Some x))))"
  by (simp add: latest_sample_def)

lemma process_query_cases:
  "fetch_latest_metric_value h q t url s = (r, s') \<Longrightarrow>
   process_query h url t q md s =
     (case r of
        Inl e \<Rightarrow> Inl (str_of h e)
      | Inr None \<Rightarrow> Inr (setitem md q (Text NO_DATA))
      | Inr (Some x) \<Rightarrow> Inr (setitem md (sanitize_query q) (Number x)), s')"
  by (simp add: process_query_def split: sum.splits option.splits)

lemma process_query_absent:
  "fetch_latest_metric_value h q t url s = (Inr None, s') \<Longrightarrow>
   process_query h url t q md s = (Inr (setitem md q (Text NO_DATA)), s')"
  by (simp add: process_query_def)

lemma process_query_raises:
  "fetch_latest_metric_value h q t url s = (Inl e, s') \<Longrightarrow>
   process_query h url t q md s = (Inl (str_of h e), s')"
  by (simp add: process_query_def)

lemma query_loop_append:
  "query_loop h url t (pre @ rest) md s =
     (case query_loop h url t pre md s of
        (Inl msg, s') \<Rightarrow> (Inl msg, s')
      | (Inr md', s') \<Rightarrow> query_loop h url t rest md' s')"
  by (induction pre arbitrary: md s) (auto split: prod.splits sum.splits)

lemma query_loop_fails_at:
  "query_loop h url t pre md s = (Inr md1, s1) \<Longrightarrow>
   fetch_latest_metric_value h q t url s1 = (Inl e, s2) \<Longrightarrow>
   query_loop h url t (pre @ q # post) md s = (Inl (str_of h e), s2)"
  by (simp add: query_loop_append process_query_raises)

lemma main_fails_at:
  "params_queries p = pre @ q # post \<Longrightarrow>
   query_loop h (params_prometheus_url p) (int_of (time_time h w)) pre [] (w, []) = (Inr md1, s1) \<Longrightarrow>
   fetch_latest_metric_value h q (int_of (time_time h w)) (params_prometheus_url p) s1 = (Inl e, s2) \<Longrightarrow>
   main h p w = (Fail_json (str_of h e), s2)"
  by (simp add: main_def query_loop_fails_at)

subsection \<open>The requests a run sends\<close>

lemma fetch_sent:
  "fetch_latest_metric_value h q t url (w, sent) = (r, (w', sent')) \<Longrightarrow>
   sent' = sent @ [(url @ PROMETHEUS_QUERY_API, \<lparr>param_query = q, param_time = t\<rparr>)]"
  by (auto simp: fetch_latest_metric_value_def get_def split: prod.splits sum.splits option.splits)

lemma process_query_sent:
  "process_query h url t q md (w, sent) = (r, (w', sent')) \<Longrightarrow>
   sent' = sent @ [(url @ PROMETHEUS_QUERY_API, \<lparr>param_query = q, param_time = t\<rparr>)]"
  by (auto simp: process_query_def Let_def split: prod.splits sum.splits dest: fetch_sent)

lemma query_loop_sent:
  "query_loop h url t qs md (w, sent) = (r, (w', sent')) \<Longrightarrow>
   \<exists>n \<le> length qs.
     sent' = sent @ map (\<lambda>q. (url @ PROMETHEUS_QUERY_API, \<lparr>param_query = q, param_time = t\<rparr>)) (take n qs) \<and>
     (isl r \<or> n = length qs)"
proof (induction qs arbitrary: md w sent)
  case Nil
  then show ?case by simp
next
  case (Cons q qs)
  obtain r1 w1 sent1 where step: "process_query h url t q md (w, sent) = (r1, (w1, sent1))"
    by (metis surj_pair)
  have sent1: "sent1 = sent @ [(url @ PROMETHEUS_QUERY_API, \<lparr>param_query = q, param_time = t\<rparr>)]"
    using step by (rule process_query_sent)
  show ?case
  proof (cases r1)
    case (Inl msg)
    with Cons.prems step have "r = Inl msg" "sent' = sent1" by simp_all
    with sent1 show ?thesis by (intro exI [of _ 1]) simp
  next
    case (Inr md1)
    with Cons.prems step have "query_loop h url t qs md1 (w1, sent1) = (r, (w', sent'))" by simp
    from Cons.IH [OF this] obtain n where n: "n \<le> length qs"
      "sent' = sent1 @ map (\<lambda>q. (url @ PROMETHEUS_QUERY_API, \<lparr>param_query = q, param_time = t\<rparr>)) (take n qs)"
      "isl r \<or> n = length qs" by blast
    with sent1 show ?thesis by (intro exI [of _ "Suc n"]) auto
  qed
qed

subsection \<open>Where a failing run fails\<close>

lemma query_loop_Inl:
  "query_loop h url t qs md s = (Inl msg, s') \<Longrightarrow>
   \<exists>pre q post md1 s1 e. qs = pre @ q # post \<and> query_loop h url t pre md s = (Inr md1, s1) \<and>
      fetch_latest_metric_value h q t url s1 = (Inl e, s') \<and> msg = str_of h e"
proof (induction qs arbitrary: md s)
  case Nil
  then show ?case by simp
next
  case (Cons q qs)
  obtain r1 s1 where step: "process_query h url t q md s = (r1, s1)"
    by (metis surj_pair)
  show ?case
  proof (cases r1)
    case (Inl m)
    with Cons.prems step have eq: "m = msg" "s1 = s'" by simp_all
    from step Inl eq obtain e where "fetch_latest_metric_value h q t url s = (Inl e, s')" "msg = str_of h e"
      by (auto simp: process_query_def Let_def split: prod.splits sum.splits)
    then show ?thesis
      by (intro exI [of _ "[]"] exI [of _ q] exI [of _ qs] exI [of _ md] exI [of _ s] exI [of _ e]) simp
  next
    case (Inr md1)
    with Cons.prems step have "query_loop h url t qs md1 s1 = (Inl msg, s')" by simp
    from Cons.IH [OF this] obtain pre q' post md2 s2 e where
      *: "qs = pre @ q' # post" "query_loop h url t pre md1 s1 = (Inr md2, s2)"
         "fetch_latest_metric_value h q' t url s2 = (Inl e, s')" "msg = str_of h e" by blast
    from * step Inr have "query_loop h url t (q # pre) md s = (Inr md2, s2)" by simp
    with * show ?thesis
      by (intro exI [of _ "q # pre"] exI [of _ q'] exI [of _ post] exI [of _ md2] exI [of _ s2] exI [of _ e]) simp
  qed
qed

subsection \<open>The entries of a run without key collisions\<close>

lemma process_query_entry:
  assumes "process_query h url t q md s = (Inr md', s')"
  shows "\<exists>k v. md' = setitem md k v \<and>
           ((k = sanitize_query q \<and> (\<exists>x. v = Number x)) \<or> (k = q \<and> v = Text NO_DATA))"
proof -
  from assms obtain latest_value where
    md': "md' = setitem md (if latest_value \<noteq> None then sanitize_query q else q)
                 (case latest_value of Some x \<Rightarrow> Number x | None \<Rightarrow> Text NO_DATA)"
    by (auto simp: process_query_def Let_def split: prod.splits sum.splits)
  show ?thesis
  proof (cases latest_value)
    case None
    with md' show ?thesis by (intro exI [of _ q] exI [of _ "Text NO_DATA"]) simp
  next
    case (Some x)
    with md' show ?thesis by (intro exI [of _ "sanitize_query q"] exI [of _ "Number x"]) simp
  qed
qed

lemma query_loop_entries:
  assumes "query_loop h url t qs md s = (Inr md', s')"
    and "distinct (map sanitize_query qs)"
    and "\<forall>q\<in>set qs. \<forall>r\<in>set qs. r \<noteq> q \<longrightarrow> q \<noteq> sanitize_query r"
    and "\<forall>q\<in>set qs. q \<notin> fst ` set md \<and> sanitize_query q \<notin> fst ` set md"
  shows "\<exists>es. md' = md @ es \<and>
           list_all2 (\<lambda>q kv. (fst kv = sanitize_query q \<and> (\<exists>x. snd kv = Number x))
                            \<or> (fst kv = q \<and> snd kv = Text NO_DATA)) qs es"
  using assms
proof (induction qs arbitrary: md s)
  case Nil
  then show ?case by simp
next
  case (Cons q qs)
  from Cons.prems(1) obtain md1 s1 where step: "process_query h url t q md s = (Inr md1, s1)"
    and rest: "query_loop h url t qs md1 s1 = (Inr md', s')"
    by (auto split: prod.splits sum.splits)
  from process_query_entry [OF step] obtain k v where kv: "md1 = setitem md k v"
    "(k = sanitize_query q \<and> (\<exists>x. v = Number x)) \<or> (k = q \<and> v = Text NO_DATA)"
    by blast
  then have key: "k = q \<or> k = sanitize_query q" by blast
  from Cons.prems(4) have "q \<notin> fst ` set md" "sanitize_query q \<notin> fst ` set md" by simp_all
  with key have "k \<notin> fst ` set md" by metis
  with kv(1) have md1: "md1 = md @ [(k, v)]" by (simp add: setitem_fresh)
  have fresh: "\<forall>r\<in>set qs. r \<notin> fst ` set md1 \<and> sanitize_query r \<notin> fst ` set md1"
  proof
    fix r assume r: "r \<in> set qs"
    with Cons.prems(4) have old: "r \<notin> fst ` set md" "sanitize_query r \<notin> fst ` set md"
      by simp_all
    from r Cons.prems(2) have a: "sanitize_query q \<noteq> sanitize_query r" by auto
    then have ne: "r \<noteq> q" by auto
    from Cons.prems(3) [rule_format, of q r] r ne have b: "q \<noteq> sanitize_query r" by simp
    from Cons.prems(3) [rule_format, of r q] r ne have c: "r \<noteq> sanitize_query q" by auto
    from a b c ne key have "r \<noteq> k" "sanitize_query r \<noteq> k" by auto
    with old show "r \<notin> fst ` set md1 \<and> sanitize_query r \<notin> fst ` set md1"
      unfolding md1 by auto
  qed
  from Cons.prems(2) have d: "distinct (map sanitize_query qs)" by simp
  from Cons.prems(3) have n: "\<forall>q\<in>set qs. \<forall>r\<in>set qs. r \<noteq> q \<longrightarrow> q \<noteq> sanitize_query r" by simp
  from Cons.IH [OF rest d n fresh] obtain es where es: "md' = md1 @ es"
    "list_all2 (\<lambda>q kv. (fst kv = sanitize_query q \<and> (\<exists>x. snd kv = Number x))
                            \<or> (fst kv = q \<and> snd kv = Text NO_DATA)) qs es" by blast
  with md1 kv(2) show ?case by (intro exI [of _ "(k, v) # es"]) simp
qed


section \<open>The claims\<close>

subsection \<open>sanitize_query\<close>

text \<open>
  C5. \<open>sanitize_query(q)\<close> has the length of \<open>q\<close>; at every position it has \<open>_\<close> where
  \<open>q\<close> has \<open>:\<close> or \<open>.\<close>, and the character of \<open>q\<close> everywhere else. It is a function
  of the string alone: it takes neither the host nor the world.
\<close>

theorem sanitize_query_chars:
  "length (sanitize_query q) = length q
   \<and> (\<forall>i<length q. sanitize_query q ! i =
        (if q ! i = CHR '':'' \<or> q ! i = CHR ''.'' then CHR ''_'' else q ! i))"
proof (intro conjI allI impI)
  show "length (sanitize_query q) = length q"
    by (simp add: sanitize_query_def replace_length)
next
  fix i assume i: "i < length q"
  let ?colon = "replace CHR '':'' CHR ''_'' q"
  from i have "?colon ! i = (if q ! i = CHR '':'' then CHR ''_'' else q ! i)"
    by (rule replace_nth)
  moreover from i have "replace CHR ''.'' CHR ''_'' ?colon ! i
      = (if ?colon ! i = CHR ''.'' then CHR ''_'' else ?colon ! i)"
    by (simp add: replace_nth replace_length)
  ultimately show "sanitize_query q ! i =
      (if q ! i = CHR '':'' \<or> q ! i = CHR ''.'' then CHR ''_'' else q ! i)"
    by (simp add: sanitize_query_def)
qed

theorem sanitize_query_chars_witness:
  "sanitize_query ''rate(http:req.total[5m])'' = ''rate(http_req_total[5m])''
   \<and> length (sanitize_query ''a:b.c'') = 5
   \<and> sanitize_query ''a:b.c'' ! 1 = CHR ''_''
   \<and> sanitize_query ''a:b.c'' ! 2 = CHR ''b''
   \<and> sanitize_query ''a:b.c'' ! 3 = CHR ''_''"
proof -
  note t = sanitize_query_chars [of "''a:b.c''"]
  from t have a: "length (sanitize_query ''a:b.c'') = 5" by simp
  from t [THEN conjunct2, rule_format, of 1] have b: "sanitize_query ''a:b.c'' ! 1 = CHR ''_''" by simp
  from t [THEN conjunct2, rule_format, of 2] have c: "sanitize_query ''a:b.c'' ! 2 = CHR ''b''" by simp
  from t [THEN conjunct2, rule_format, of 3] have d: "sanitize_query ''a:b.c'' ! 3 = CHR ''_''" by simp
  have "sanitize_query ''rate(http:req.total[5m])'' = ''rate(http_req_total[5m])''"
    by (simp add: sanitize_query_def replace_def)
  with a b c d show ?thesis by simp
qed

text \<open>
  C8. \<open>sanitize_query\<close> is idempotent, and it is not injective: \<open>a:b\<close> and \<open>a.b\<close>
  are two strings with one key.
\<close>

theorem sanitize_query_idempotent_not_injective:
  "(\<forall>q. sanitize_query (sanitize_query q) = sanitize_query q)
   \<and> (\<exists>a b. a \<noteq> b \<and> sanitize_query a = sanitize_query b)"
proof (intro conjI allI exI)
  show "sanitize_query (sanitize_query q) = sanitize_query q" for q
    by (simp add: sanitize_query_def replace_def)
  show "''a:b'' \<noteq> ''a.b''" by simp
  show "sanitize_query ''a:b'' = sanitize_query ''a.b''"
    by (simp add: sanitize_query_def replace_def)
qed

subsection \<open>One query\<close>

text \<open>
  C1. The response to the query is an HTTP success whose body has a non-empty
  \<open>data.result\<close> array. Then whenever the iteration adds an entry, the entry has the
  sanitized query as its key and, as its value, \<open>float\<close> of element 1 of the \<open>value\<close> of
  the first result; and it does add that entry whenever that element exists and
  \<open>float\<close> accepts it.
\<close>

theorem found_value_entry:
  assumes "requests_get h (url @ PROMETHEUS_QUERY_API) \<lparr>param_query = q, param_time = t\<rparr> w = (Inr r, w')"
    and "raise_for_status r = None"
    and "json r = Inr (PDict body)"
    and "map_of body ''data'' = Some (PDict d)"
    and "map_of d ''result'' = Some (PList (entry # entries))"
  shows "(\<forall>md'. fst (process_query h url t q md (w, sent)) = Inr md' \<longrightarrow>
            (\<exists>pair sample x.
               getitem entry (Name ''value'') = Inr pair \<and> getitem pair (Index 1) = Inr sample
               \<and> float_of h sample = Inr x
               \<and> md' = setitem md (sanitize_query q) (Number x)
               \<and> map_of md' (sanitize_query q) = Some (Number x)))
         \<and> (\<forall>pair sample x.
               getitem entry (Name ''value'') = Inr pair \<and> getitem pair (Index 1) = Inr sample
               \<and> float_of h sample = Inr x \<longrightarrow>
               fst (process_query h url t q md (w, sent)) = Inr (setitem md (sanitize_query q) (Number x)))"
proof -
  note ls = latest_sample_nonempty [OF assms(4,5), of h]
  note pq = process_query_cases [OF fetch_body [OF assms(1-3), of sent], of md]
  have a: "\<exists>pair sample x.
               getitem entry (Name ''value'') = Inr pair \<and> getitem pair (Index 1) = Inr sample
               \<and> float_of h sample = Inr x
               \<and> md' = setitem md (sanitize_query q) (Number x)
               \<and> map_of md' (sanitize_query q) = Some (Number x)"
    if "fst (process_query h url t q md (w, sent)) = Inr md'" for md'
    using that unfolding pq ls by (auto simp: map_of_setitem split: sum.splits)
  have b: "fst (process_query h url t q md (w, sent)) = Inr (setitem md (sanitize_query q) (Number x))"
    if "getitem entry (Name ''value'') = Inr pair \<and> getitem pair (Index 1) = Inr sample
               \<and> float_of h sample = Inr x" for pair sample x
    using that unfolding pq ls by simp
  from a b show ?thesis by blast
qed

theorem found_value_entry_witness:
  "fst (process_query demo_host ''http://prometheus-server:9090'' 1700000000 ''http:requests.total''
          [(''up'', Number 1)] (0, []))
     = Inr [(''up'', Number 1), (''http_requests_total'', Number 1)]
   \<and> (\<exists>pair sample x.
        getitem (PDict [(''metric'', PDict [(''__name__'', PStr ''up'')]),
                        (''value'', PList [PFloat 1700000000.5, PStr ''1''])]) (Name ''value'') = Inr pair
        \<and> getitem pair (Index 1) = Inr sample
        \<and> float_of demo_host sample = Inr x
        \<and> [(''up'', Number 1), (''http_requests_total'', Number 1)]
            = setitem [(''up'', Number 1)] (sanitize_query ''http:requests.total'') (Number x)
        \<and> map_of [(''up'', Number 1), (''http_requests_total'', Number 1)]
             (sanitize_query ''http:requests.total'') = Some (Number x))"
proof -
  let ?r = "\<lparr>raise_for_status = None, json = Inr (demo_body ''http:requests.total'')\<rparr>"
  let ?entry = "PDict [(''metric'', PDict [(''__name__'', PStr ''up'')]),
                       (''value'', PList [PFloat (1700000000.5 :: real), PStr ''1''])]"
  let ?d = "[(''resultType'', PStr ''vector''), (''result'', PList [?entry])]"
  let ?body = "[(''status'', PStr ''success''), (''data'', PDict ?d)]"
  have 1: "requests_get demo_host (''http://prometheus-server:9090'' @ PROMETHEUS_QUERY_API)
      \<lparr>param_query = ''http:requests.total'', param_time = 1700000000\<rparr> 0 = (Inr ?r, Suc 0)"
    by (simp add: demo_get demo_response_def)
  have 2: "raise_for_status ?r = None" by simp
  have 3: "json ?r = Inr (PDict ?body)"
    by (simp add: demo_body_def demo_result_def)
  have 4: "map_of ?body ''data'' = Some (PDict ?d)" by simp
  have 5: "map_of ?d ''result'' = Some (PList (?entry # []))" by simp
  have 6: "getitem ?entry (Name ''value'') = Inr (PList [PFloat 1700000000.5, PStr ''1''])
     \<and> getitem (PList [PFloat (1700000000.5 :: real), PStr ''1'']) (Index 1) = Inr (PStr ''1'')
     \<and> float_of demo_host (PStr ''1'') = Inr 1"
    by (simp add: demo_host_def)
  note t = found_value_entry [OF 1 2 3 4 5, of "[(''up'', Number 1)]" "[]"]
  from t [THEN conjunct2, rule_format, OF 6]
  have 7: "fst (process_query demo_host ''http://prometheus-server:9090'' 1700000000 ''http:requests.total''
          [(''up'', Number 1)] (0, []))
     = Inr [(''up'', Number 1), (''http_requests_total'', Number 1)]"
    by (simp add: sanitize_query_def replace_def)
  from 7 t [THEN conjunct1, rule_format, OF 7] show ?thesis by (rule conjI)
qed

text \<open>
  C2. The response to the query is an HTTP success whose body has an empty
  \<open>data.result\<close> array. Then the iteration adds an entry whose key is the query as
  given, not sanitized, and whose value is the string
  \<open>No data available for the specified time range.\<close>; nothing is reported as an error,
  and the loop goes on with the next query.
\<close>

theorem absent_value_entry:
  assumes "requests_get h (url @ PROMETHEUS_QUERY_API) \<lparr>param_query = q, param_time = t\<rparr> w = (Inr r, w')"
    and "raise_for_status r = None"
    and "json r = Inr (PDict body)"
    and "map_of body ''data'' = Some (PDict d)"
    and "map_of d ''result'' = Some (PList [])"
  shows "fst (process_query h url t q md (w, sent))
           = Inr (setitem md q (Text ''No data available for the specified time range.''))
         \<and> map_of (setitem md q (Text ''No data available for the specified time range.'')) q
           = Some (Text ''No data available for the specified time range.'')
         \<and> query_loop h url t (q # rest) md (w, sent)
           = query_loop h url t rest (setitem md q (Text ''No data available for the specified time range.''))
               (w', sent @ [(url @ PROMETHEUS_QUERY_API, \<lparr>param_query = q, param_time = t\<rparr>)])"
proof -
  from assms(4,5) have "latest_sample h (PDict body) = Inr None"
    by (rule latest_sample_empty)
  with fetch_body [OF assms(1-3)] have "fetch_latest_metric_value h q t url (w, sent) =
      (Inr None, (w', sent @ [(url @ PROMETHEUS_QUERY_API, \<lparr>param_query = q, param_time = t\<rparr>)]))"
    by simp
  from process_query_absent [OF this] show ?thesis
    by (simp add: map_of_setitem NO_DATA_def)
qed

theorem absent_value_entry_witness:
  "fst (process_query demo_host ''http://prometheus-server:9090'' 1700000000 ''absent.metric''
          [(''up'', Number 1)] (0, []))
     = Inr [(''up'', Number 1), (''absent.metric'', Text ''No data available for the specified time range.'')]
   \<and> fst (query_loop demo_host ''http://prometheus-server:9090'' 1700000000 [''absent.metric'', ''up''] [] (0, []))
     = Inr [(''absent.metric'', Text ''No data available for the specified time range.''), (''up'', Number 1)]"
proof -
  let ?r = "\<lparr>raise_for_status = None, json = Inr (demo_body ''absent.metric'')\<rparr>"
  let ?d = "[(''resultType'', PStr ''vector''), (''result'', PList [])]"
  let ?body = "[(''status'', PStr ''success''), (''data'', PDict ?d)]"
  have 1: "requests_get demo_host (''http://prometheus-server:9090'' @ PROMETHEUS_QUERY_API)
      \<lparr>param_query = ''absent.metric'', param_time = 1700000000\<rparr> 0 = (Inr ?r, Suc 0)"
    by (simp add: demo_get demo_response_def)
  have 2: "raise_for_status ?r = None" by simp
  have 3: "json ?r = Inr (PDict ?body)"
    by (simp add: demo_body_def demo_result_def)
  have 4: "map_of ?body ''data'' = Some (PDict ?d)" by simp
  have 5: "map_of ?d ''result'' = Some (PList ([] :: real pyval list))" by simp
  from absent_value_entry [OF 1 2 3 4 5, of "[(''up'', Number 1)]" "[]" "[]"]
    absent_value_entry [OF 1 2 3 4 5, of "[]" "[]" "[''up'']"]
  show ?thesis by (simp add: demo_defs)
qed

text \<open>
  C9. A sample that \<open>float\<close> turns into a float that is false as a truth value (0.0) is
  found, not absent: \<open>fetch_latest_metric_value\<close> returns it, and the entry has the
  sanitized key and the number, not the no-data string.
\<close>

theorem falsy_sample_is_found:
  assumes "requests_get h (url @ PROMETHEUS_QUERY_API) \<lparr>param_query = q, param_time = t\<rparr> w = (Inr r, w')"
    and "raise_for_status r = None"
    and "json r = Inr (PDict body)"
    and "map_of body ''data'' = Some (PDict d)"
    and "map_of d ''result'' = Some (PList (entry # entries))"
    and "getitem entry (Name ''value'') = Inr pair"
    and "getitem pair (Index 1) = Inr sample"
    and "float_of h sample = Inr x"
    and "\<not> truth h (PFloat x)"
  shows "fst (fetch_latest_metric_value h q t url (w, sent)) = Inr (Some x)
         \<and> query_loop h url t (q # rest) md (w, sent)
           = query_loop h url t rest (setitem md (sanitize_query q) (Number x))
               (w', sent @ [(url @ PROMETHEUS_QUERY_API, \<lparr>param_query = q, param_time = t\<rparr>)])
         \<and> Number x \<noteq> Text ''No data available for the specified time range.''"
proof -
  from assms(6-8) have "latest_sample h (PDict body) = Inr (Some x)"
    by (simp add: latest_sample_nonempty [OF assms(4,5)])
  with fetch_body [OF assms(1-3), of sent] have f: "fetch_latest_metric_value h q t url (w, sent) =
      (Inr (Some x), (w', sent @ [(url @ PROMETHEUS_QUERY_API, \<lparr>param_query = q, param_time = t\<rparr>)]))"
    by simp
  from process_query_cases [OF f, of md] f show ?thesis
    by simp
qed

theorem falsy_sample_is_found_witness:
  "\<not> truth demo_host (PFloat 0)
   \<and> fst (fetch_latest_metric_value demo_host ''job:errors.rate'' 1700000000 ''http://prometheus-server:9090'' (0, []))
     = Inr (Some 0)
   \<and> fst (query_loop demo_host ''http://prometheus-server:9090'' 1700000000 [''job:errors.rate''] [] (0, []))
     = Inr [(''job_errors_rate'', Number 0)]"
proof -
  let ?r = "\<lparr>raise_for_status = None, json = Inr (demo_body ''job:errors.rate'')\<rparr>"
  let ?pair = "PList [PFloat (1700000000.5 :: real), PStr ''0'']"
  let ?entry = "PDict [(''metric'', PDict []), (''value'', ?pair)]"
  let ?d = "[(''resultType'', PStr ''vector''), (''result'', PList [?entry])]"
  let ?body = "[(''status'', PStr ''success''), (''data'', PDict ?d)]"
  have 1: "requests_get demo_host (''http://prometheus-server:9090'' @ PROMETHEUS_QUERY_API)
      \<lparr>param_query = ''job:errors.rate'', param_time = 1700000000\<rparr> 0 = (Inr ?r, Suc 0)"
    by (simp add: demo_get demo_response_def)
  have 2: "raise_for_status ?r = None" by simp
  have 3: "json ?r = Inr (PDict ?body)"
    by (simp add: demo_body_def demo_result_def)
  have 4: "map_of ?body ''data'' = Some (PDict ?d)" by simp
  have 5: "map_of ?d ''result'' = Some (PList (?entry # []))" by simp
  have 6: "getitem ?entry (Name ''value'') = Inr ?pair" by simp
  have 7: "getitem ?pair (Index 1) = Inr (PStr ''0'')" by simp
  have 8: "float_of demo_host (PStr ''0'') = Inr 0" by (simp add: demo_host_def)
  have 9: "\<not> truth demo_host (PFloat 0)" by (simp add: demo_host_def)
  from falsy_sample_is_found [OF 1 2 3 4 5 6 7 8 9, of "[]" "[]" "[]"] 9
  show ?thesis by (simp add: sanitize_query_def replace_def)
qed

subsection \<open>The batch\<close>

text \<open>
  C4. A query is reached after the queries before it were processed; its request fails
  in the HTTP client, or \<open>raise_for_status\<close> raises on its response. Then the run ends
  in \<open>fail_json\<close> with \<open>str\<close> of that exception, an outcome that has no
  \<open>metrics_data\<close>, whatever the earlier queries gave and whatever the later ones would
  give.
\<close>

theorem transport_error_fails_batch:
  assumes "params_queries p = pre @ q # post"
    and "query_loop h (params_prometheus_url p) (int_of (time_time h w)) pre [] (w, []) = (Inr md, (w1, sent))"
    and "requests_get h (params_prometheus_url p @ PROMETHEUS_QUERY_API)
           \<lparr>param_query = q, param_time = int_of (time_time h w)\<rparr> w1 = (Inl e, w2)
         \<or> (\<exists>r. requests_get h (params_prometheus_url p @ PROMETHEUS_QUERY_API)
                  \<lparr>param_query = q, param_time = int_of (time_time h w)\<rparr> w1 = (Inr r, w2)
                \<and> raise_for_status r = Some e)"
  shows "fst (main h p w) = Fail_json (str_of h e)"
proof -
  let ?rq = "(params_prometheus_url p @ PROMETHEUS_QUERY_API,
              \<lparr>param_query = q, param_time = int_of (time_time h w)\<rparr>)"
  from assms(3) have
    "fetch_latest_metric_value h q (int_of (time_time h w)) (params_prometheus_url p) (w1, sent)
       = (Inl e, (w2, sent @ [?rq]))"
    by (auto simp: fetch_raises_get fetch_raises_status)
  from main_fails_at [OF assms(1,2) this] show ?thesis by simp
qed

theorem transport_error_fails_batch_witness:
  "fst (main demo_host (demo_params [''up'', ''down'', ''absent.metric'']) 0) = Fail_json ''connection refused''
   \<and> fst (main demo_host (demo_params [''up'', ''gone'', ''absent.metric'']) 0) = Fail_json ''404 Client Error''
   \<and> fst (main demo_host (demo_params [''up'', ''absent.metric'']) 0)
     = Exit_json False [(''up'', Number 1), (''absent.metric'', Text ''No data available for the specified time range.'')]"
proof -
  let ?p = "demo_params [''up'', ''down'', ''absent.metric'']"
  let ?p' = "demo_params [''up'', ''gone'', ''absent.metric'']"
  let ?sent = "[(''http://prometheus-server:9090/api/v1/query'', \<lparr>param_query = ''up'', param_time = 1700000000\<rparr>)]"
  have 1: "params_queries ?p = [''up''] @ ''down'' # [''absent.metric'']"
    by (simp add: demo_params_def)
  have 2: "query_loop demo_host (params_prometheus_url ?p) (int_of (time_time demo_host 0)) [''up''] [] (0, [])
      = (Inr [(''up'', Number 1)], (Suc 0, ?sent))"
    by (simp add: demo_defs)
  have 3: "requests_get demo_host (params_prometheus_url ?p @ PROMETHEUS_QUERY_API)
      \<lparr>param_query = ''down'', param_time = int_of (time_time demo_host 0)\<rparr> (Suc 0)
        = (Inl (RequestException ''connection refused''), Suc (Suc 0))
      \<or> (\<exists>r. requests_get demo_host (params_prometheus_url ?p @ PROMETHEUS_QUERY_API)
      \<lparr>param_query = ''down'', param_time = int_of (time_time demo_host 0)\<rparr> (Suc 0) = (Inr r, Suc (Suc 0))
         \<and> raise_for_status r = Some (RequestException ''connection refused''))"
    by (simp add: demo_get demo_response_def)
  have g1: "params_queries ?p' = [''up''] @ ''gone'' # [''absent.metric'']"
    by (simp add: demo_params_def)
  have g2: "query_loop demo_host (params_prometheus_url ?p') (int_of (time_time demo_host 0)) [''up''] [] (0, [])
      = (Inr [(''up'', Number 1)], (Suc 0, ?sent))"
    by (simp add: demo_defs)
  have g3: "requests_get demo_host (params_prometheus_url ?p' @ PROMETHEUS_QUERY_API)
      \<lparr>param_query = ''gone'', param_time = int_of (time_time demo_host 0)\<rparr> (Suc 0)
        = (Inl (RequestException ''404 Client Error''), Suc (Suc 0))
      \<or> (\<exists>r. requests_get demo_host (params_prometheus_url ?p' @ PROMETHEUS_QUERY_API)
      \<lparr>param_query = ''gone'', param_time = int_of (time_time demo_host 0)\<rparr> (Suc 0) = (Inr r, Suc (Suc 0))
         \<and> raise_for_status r = Some (RequestException ''404 Client Error''))"
    by (simp add: demo_get demo_response_def)
  have 4: "fst (main demo_host (demo_params [''up'', ''absent.metric'']) 0)
     = Exit_json False [(''up'', Number 1), (''absent.metric'', Text ''No data available for the specified time range.'')]"
    by (simp add: demo_defs)
  from transport_error_fails_batch [OF 1 2 3] transport_error_fails_batch [OF g1 g2 g3] 4
  show ?thesis by (simp add: demo_host_def)
qed

text \<open>
  A body without the \<open>data\<close> field is no error: the query \<open>unknown\<close> of the example
  host is answered with \<open>{"status": "success"}\<close>, and the run exits with the no-data
  entry for it.
\<close>

theorem missing_data_field_counterexample:
  "requests_get demo_host (''http://prometheus-server:9090'' @ PROMETHEUS_QUERY_API)
      \<lparr>param_query = ''unknown'', param_time = 1700000000\<rparr> 0
     = (Inr \<lparr>raise_for_status = None, json = Inr (PDict [(''status'', PStr ''success'')])\<rparr>, 1)
   \<and> getitem (PDict [(''status'', PStr ''success'')]) (Name ''data'') = Inl (KeyError (Name ''data''))
   \<and> fst (main demo_host (demo_params [''up'', ''unknown'']) 0)
     = Exit_json False
         [(''up'', Number 1), (''unknown'', Text ''No data available for the specified time range.'')]"
  by (simp add: demo_defs)

text \<open>
  C3, as the code has it. The response is an HTTP success whose body has a non-empty
  \<open>data.result\<close> array, and the first result is an object that has no \<open>value\<close> field,
  or whose \<open>value\<close> is an array of fewer than two elements. Then
  \<open>fetch_latest_metric_value\<close> raises \<open>KeyError\<close> or \<open>IndexError\<close>, and the run ends in
  \<open>fail_json\<close> with \<open>str\<close> of it, as it does for a transport error.
\<close>

theorem malformed_entry_aborts_batch:
  assumes "params_queries p = pre @ q # post"
    and "query_loop h (params_prometheus_url p) (int_of (time_time h w)) pre [] (w, []) = (Inr md, (w1, sent))"
    and "requests_get h (params_prometheus_url p @ PROMETHEUS_QUERY_API)
           \<lparr>param_query = q, param_time = int_of (time_time h w)\<rparr> w1 = (Inr r, w2)"
    and "raise_for_status r = None"
    and "json r = Inr (PDict body)"
    and "map_of body ''data'' = Some (PDict d)"
    and "map_of d ''result'' = Some (PList (PDict entry # entries))"
    and "map_of entry ''value'' = None \<or> (\<exists>vs. map_of entry ''value'' = Some (PList vs) \<and> length vs < 2)"
  shows "fst (fetch_latest_metric_value h q (int_of (time_time h w)) (params_prometheus_url p) (w1, sent))
           = Inl (if map_of entry ''value'' = None then KeyError (Name ''value'')
                  else IndexError ''list index out of range'')
         \<and> fst (main h p w)
           = Fail_json (str_of h (if map_of entry ''value'' = None then KeyError (Name ''value'')
                                  else IndexError ''list index out of range''))"
proof -
  let ?e = "if map_of entry ''value'' = None then KeyError (Name ''value'')
            else IndexError ''list index out of range''"
  from assms(8) have "latest_sample h (PDict body) = Inl ?e"
  proof
    assume "map_of entry ''value'' = None"
    with assms(6,7) show ?thesis by (simp add: latest_sample_no_value)
  next
    assume "\<exists>vs. map_of entry ''value'' = Some (PList vs) \<and> length vs < 2"
    then obtain vs where "map_of entry ''value'' = Some (PList vs)" "length vs < 2" by blast
    with assms(6,7) show ?thesis by (simp add: latest_sample_short_value)
  qed
  with fetch_body [OF assms(3-5)] have f:
    "fetch_latest_metric_value h q (int_of (time_time h w)) (params_prometheus_url p) (w1, sent) =
      (Inl ?e, (w2, sent @ [(params_prometheus_url p @ PROMETHEUS_QUERY_API,
                             \<lparr>param_query = q, param_time = int_of (time_time h w)\<rparr>)]))"
    by simp
  from main_fails_at [OF assms(1,2) f] f show ?thesis by simp
qed

theorem malformed_entry_aborts_batch_witness:
  "fst (main demo_host (demo_params [''up'', ''novalue'', ''absent.metric'']) 0)
     = Fail_json (CHR 0x27 # ''value'' @ [CHR 0x27])
   \<and> fst (main demo_host (demo_params [''short'']) 0) = Fail_json ''list index out of range''"
proof -
  let ?ps = "demo_params [''short'']"
  let ?rs = "\<lparr>raise_for_status = None, json = Inr (demo_body ''short'')\<rparr>"
  let ?es = "[(''metric'', PDict []), (''value'', PList [PFloat (1700000000.5 :: real)])]"
  let ?ds = "[(''resultType'', PStr ''vector''), (''result'', PList [PDict ?es])]"
  let ?bs = "[(''status'', PStr ''success''), (''data'', PDict ?ds)]"
  have s1: "params_queries ?ps = [] @ ''short'' # []"
    by (simp add: demo_params_def)
  have s2: "query_loop demo_host (params_prometheus_url ?ps) (int_of (time_time demo_host 0)) [] [] (0, [])
      = (Inr [], (0, []))"
    by simp
  have s3: "requests_get demo_host (params_prometheus_url ?ps @ PROMETHEUS_QUERY_API)
      \<lparr>param_query = ''short'', param_time = int_of (time_time demo_host 0)\<rparr> 0 = (Inr ?rs, Suc 0)"
    by (simp add: demo_get demo_response_def)
  have s4: "raise_for_status ?rs = None" by simp
  have s5: "json ?rs = Inr (PDict ?bs)"
    by (simp add: demo_body_def demo_result_def)
  have s6: "map_of ?bs ''data'' = Some (PDict ?ds)" by simp
  have s7: "map_of ?ds ''result'' = Some (PList (PDict ?es # []))" by simp
  have s8: "map_of ?es ''value'' = None
      \<or> (\<exists>vs. map_of ?es ''value'' = Some (PList vs) \<and> length vs < 2)"
    by simp
  from malformed_entry_aborts_batch [OF s1 s2 s3 s4 s5 s6 s7 s8]
  have short: "fst (main demo_host ?ps 0) = Fail_json ''list index out of range''"
    by (simp add: demo_host_def)
  let ?p = "demo_params [''up'', ''novalue'', ''absent.metric'']"
  let ?r = "\<lparr>raise_for_status = None, json = Inr (demo_body ''novalue'')\<rparr>"
  let ?entry = "[(''metric'', PDict ([] :: (string \<times> real pyval) list))]"
  let ?d = "[(''resultType'', PStr ''vector''), (''result'', PList [PDict ?entry])]"
  let ?body = "[(''status'', PStr ''success''), (''data'', PDict ?d)]"
  have 1: "params_queries ?p = [''up''] @ ''novalue'' # [''absent.metric'']"
    by (simp add: demo_params_def)
  have 2: "query_loop demo_host (params_prometheus_url ?p) (int_of (time_time demo_host 0)) [''up''] [] (0, [])
      = (Inr [(''up'', Number 1)], (Suc 0, [(''http://prometheus-server:9090/api/v1/query'',
           \<lparr>param_query = ''up'', param_time = 1700000000\<rparr>)]))"
    by (simp add: demo_defs)
  have 3: "requests_get demo_host (params_prometheus_url ?p @ PROMETHEUS_QUERY_API)
      \<lparr>param_query = ''novalue'', param_time = int_of (time_time demo_host 0)\<rparr> (Suc 0) = (Inr ?r, Suc (Suc 0))"
    by (simp add: demo_get demo_response_def)
  have 4: "raise_for_status ?r = None" by simp
  have 5: "json ?r = Inr (PDict ?body)"
    by (simp add: demo_body_def demo_result_def)
  have 6: "map_of ?body ''data'' = Some (PDict ?d)" by simp
  have 7: "map_of ?d ''result'' = Some (PList (PDict ?entry # []))" by simp
  have 8: "map_of ?entry ''value'' = None \<or> (\<exists>vs. map_of ?entry ''value'' = Some (PList vs) \<and> length vs < 2)"
    by simp
  from malformed_entry_aborts_batch [OF 1 2 3 4 5 6 7 8] short
  show ?thesis by (simp add: demo_host_def)
qed

text \<open>
  C10. The run ends in \<open>fail_json(msg)\<close> exactly when \<open>fetch_latest_metric_value\<close>
  raises an exception \<open>e\<close>, of any class, on a query that is reached, and then \<open>msg\<close>
  is \<open>str(e)\<close>. Every run ends in \<open>fail_json\<close> or in \<open>exit_json\<close>: the type \<open>outcome\<close>
  has no third case.
\<close>

theorem every_exception_is_reported:
  "fst (main h p w) = Fail_json msg \<longleftrightarrow>
     (\<exists>pre q post md s1 e s2.
        params_queries p = pre @ q # post
        \<and> query_loop h (params_prometheus_url p) (int_of (time_time h w)) pre [] (w, []) = (Inr md, s1)
        \<and> fetch_latest_metric_value h q (int_of (time_time h w)) (params_prometheus_url p) s1 = (Inl e, s2)
        \<and> msg = str_of h e)"
proof
  assume "fst (main h p w) = Fail_json msg"
  then obtain s' where
    "query_loop h (params_prometheus_url p) (int_of (time_time h w)) (params_queries p) [] (w, []) = (Inl msg, s')"
    by (auto simp: main_def Let_def split: prod.splits sum.splits)
  from query_loop_Inl [OF this] show "\<exists>pre q post md s1 e s2.
        params_queries p = pre @ q # post
        \<and> query_loop h (params_prometheus_url p) (int_of (time_time h w)) pre [] (w, []) = (Inr md, s1)
        \<and> fetch_latest_metric_value h q (int_of (time_time h w)) (params_prometheus_url p) s1 = (Inl e, s2)
        \<and> msg = str_of h e"
    by blast
next
  assume "\<exists>pre q post md s1 e s2.
        params_queries p = pre @ q # post
        \<and> query_loop h (params_prometheus_url p) (int_of (time_time h w)) pre [] (w, []) = (Inr md, s1)
        \<and> fetch_latest_metric_value h q (int_of (time_time h w)) (params_prometheus_url p) s1 = (Inl e, s2)
        \<and> msg = str_of h e"
  then obtain pre q post md s1 e s2 where *: "params_queries p = pre @ q # post"
    "query_loop h (params_prometheus_url p) (int_of (time_time h w)) pre [] (w, []) = (Inr md, s1)"
    "fetch_latest_metric_value h q (int_of (time_time h w)) (params_prometheus_url p) s1 = (Inl e, s2)"
    "msg = str_of h e" by blast
  from main_fails_at [OF *(1-3)] *(4) show "fst (main h p w) = Fail_json msg" by simp
qed

theorem every_exception_is_reported_witness:
  "fst (main demo_host (demo_params [''up'', ''text'', ''absent.metric'']) 0)
     = Fail_json ''could not convert string to float''"
proof -
  let ?p = "demo_params [''up'', ''text'', ''absent.metric'']"
  let ?up = "(''http://prometheus-server:9090/api/v1/query'', \<lparr>param_query = ''up'', param_time = 1700000000\<rparr>)"
  let ?text = "(''http://prometheus-server:9090/api/v1/query'', \<lparr>param_query = ''text'', param_time = 1700000000\<rparr>)"
  have 1: "params_queries ?p = [''up''] @ ''text'' # [''absent.metric'']"
    by (simp add: demo_params_def)
  have 2: "query_loop demo_host (params_prometheus_url ?p) (int_of (time_time demo_host 0)) [''up''] [] (0, [])
      = (Inr [(''up'', Number 1)], (Suc 0, [?up]))"
    by (simp add: demo_defs)
  have 3: "fetch_latest_metric_value demo_host ''text'' (int_of (time_time demo_host 0))
        (params_prometheus_url ?p) (Suc 0, [?up])
      = (Inl (ValueError ''could not convert string to float''), (Suc (Suc 0), [?up, ?text]))"
    by (simp add: demo_defs)
  have 4: "''could not convert string to float''
      = str_of demo_host (ValueError ''could not convert string to float'')"
    by (simp add: demo_host_def)
  have "\<exists>pre q post md s1 e s2.
        params_queries ?p = pre @ q # post
        \<and> query_loop demo_host (params_prometheus_url ?p) (int_of (time_time demo_host 0)) pre [] (0, []) = (Inr md, s1)
        \<and> fetch_latest_metric_value demo_host q (int_of (time_time demo_host 0)) (params_prometheus_url ?p) s1 = (Inl e, s2)
        \<and> ''could not convert string to float'' = str_of demo_host e"
    using 1 2 3 4 by blast
  then show ?thesis by (rule every_exception_is_reported [THEN iffD2])
qed

text \<open>
  C6. No two queries of the list have the same sanitized form, and no query is the
  sanitized form of another one. Then a run that exits with \<open>metrics_data\<close> has one
  entry for each query, in the order of the queries: the entry of a query has, as its
  key, the sanitized query with a number, or the query itself with the no-data string.
\<close>

theorem one_entry_per_query:
  assumes "fst (main h p w) = Exit_json changed md"
    and "distinct (map sanitize_query (params_queries p))"
    and "\<forall>q\<in>set (params_queries p). \<forall>r\<in>set (params_queries p). r \<noteq> q \<longrightarrow> q \<noteq> sanitize_query r"
  shows "length md = length (params_queries p)
         \<and> list_all2 (\<lambda>q kv. (fst kv = sanitize_query q \<and> (\<exists>x. snd kv = Number x))
                \<or> (fst kv = q \<and> snd kv = Text ''No data available for the specified time range.''))
              (params_queries p) md"
proof -
  from assms(1) obtain s where
    loop: "query_loop h (params_prometheus_url p) (int_of (time_time h w)) (params_queries p) [] (w, []) = (Inr md, s)"
    by (auto simp: main_def Let_def split: prod.splits sum.splits)
  from query_loop_entries [OF loop assms(2,3)]
  have *: "list_all2 (\<lambda>q kv. (fst kv = sanitize_query q \<and> (\<exists>x. snd kv = Number x))
                \<or> (fst kv = q \<and> snd kv = Text NO_DATA)) (params_queries p) md"
    by simp
  from * have "length md = length (params_queries p)" by (simp add: list_all2_lengthD)
  with * show ?thesis by (simp add: NO_DATA_def)
qed

theorem one_entry_per_query_witness:
  "fst (main demo_host (demo_params [''http:requests.total'', ''absent.metric'', ''up'']) 0)
     = Exit_json False [(''http_requests_total'', Number 1),
         (''absent.metric'', Text ''No data available for the specified time range.''),
         (''up'', Number 1)]
   \<and> length [(''http_requests_total'', Number (1::real)),
         (''absent.metric'', Text ''No data available for the specified time range.''),
         (''up'', Number 1)] = length (params_queries (demo_params [''http:requests.total'', ''absent.metric'', ''up'']))"
proof -
  let ?p = "demo_params [''http:requests.total'', ''absent.metric'', ''up'']"
  let ?md = "[(''http_requests_total'', Number (1::real)),
         (''absent.metric'', Text ''No data available for the specified time range.''),
         (''up'', Number 1)]"
  have 1: "fst (main demo_host ?p 0) = Exit_json False ?md"
    by (simp add: demo_defs)
  have 2: "distinct (map sanitize_query (params_queries ?p))"
    by (simp add: demo_params_def sanitize_query_def replace_def)
  have 3: "\<forall>q\<in>set (params_queries ?p). \<forall>r\<in>set (params_queries ?p). r \<noteq> q \<longrightarrow> q \<noteq> sanitize_query r"
    by (simp add: demo_params_def sanitize_query_def replace_def)
  from one_entry_per_query [OF 1 2 3] 1 show ?thesis by simp
qed

text \<open>
  C7. Every request of a run has, as its \<open>time\<close>, the integer part of the clock read
  in the world the run started in; a run that exits with \<open>metrics_data\<close> has sent one
  request for each query, in the order of the queries.
\<close>

theorem one_time_for_all_requests:
  assumes "main h p w = (out, (w', sent))"
  shows "(\<forall>rq\<in>set sent. param_time (snd rq) = int_of (time_time h w))
         \<and> ((\<exists>md. out = Exit_json False md) \<longrightarrow>
              map (\<lambda>rq. param_query (snd rq)) sent = params_queries p)"
proof -
  let ?t = "int_of (time_time h w)"
  let ?f = "\<lambda>q. (params_prometheus_url p @ PROMETHEUS_QUERY_API, \<lparr>param_query = q, param_time = ?t\<rparr>)"
  from assms obtain r where
    loop: "query_loop h (params_prometheus_url p) ?t (params_queries p) [] (w, []) = (r, (w', sent))"
    and out: "out = (case r of Inl msg \<Rightarrow> Fail_json msg | Inr md \<Rightarrow> Exit_json False md)"
    by (auto simp: main_def Let_def split: prod.splits sum.splits)
  from query_loop_sent [OF loop] obtain n where n: "n \<le> length (params_queries p)"
    "sent = map ?f (take n (params_queries p))" "isl r \<or> n = length (params_queries p)"
    by auto
  from n(2) have a: "\<forall>rq\<in>set sent. param_time (snd rq) = ?t" by auto
  have b: "map (\<lambda>rq. param_query (snd rq)) sent = params_queries p" if "\<exists>md. out = Exit_json False md"
  proof -
    from that out have "\<not> isl r" by (cases r) auto
    with n(3) have "n = length (params_queries p)" by simp
    with n(2) show ?thesis by (simp add: comp_def)
  qed
  from a b show ?thesis by blast
qed

theorem one_time_for_all_requests_witness:
  "main demo_host (demo_params [''up'', ''absent.metric'']) 0
     = (Exit_json False [(''up'', Number 1), (''absent.metric'', Text ''No data available for the specified time range.'')],
        (2, [(''http://prometheus-server:9090/api/v1/query'', \<lparr>param_query = ''up'', param_time = 1700000000\<rparr>),
             (''http://prometheus-server:9090/api/v1/query'', \<lparr>param_query = ''absent.metric'', param_time = 1700000000\<rparr>)]))
   \<and> int_of (time_time demo_host 0) = 1700000000"
proof -
  have 1: "main demo_host (demo_params [''up'', ''absent.metric'']) 0
     = (Exit_json False [(''up'', Number 1), (''absent.metric'', Text ''No data available for the specified time range.'')],
        (2, [(''http://prometheus-server:9090/api/v1/query'', \<lparr>param_query = ''up'', param_time = 1700000000\<rparr>),
             (''http://prometheus-server:9090/api/v1/query'', \<lparr>param_query = ''absent.metric'', param_time = 1700000000\<rparr>)]))"
    by (simp add: demo_defs)
  from one_time_for_all_requests [OF 1] 1 show ?thesis by simp
qed

end
